theory Spec2Isabelle
  imports Main "HOL-Library.AList"
begin

section \<open>Values, errors and promises of the host language\<close>

text \<open>
  The container of \<^verbatim>\<open>src/container.ts\<close> stores and returns arbitrary JavaScript values.
  Only what the container inspects is modelled: the type tag (\<^verbatim>\<open>typeof\<close>), truthiness
  and identity. \<open>Fn k\<close> is the function (class constructor or plain function) number \<open>k\<close>,
  \<open>Obj r\<close> an object that exists independently of the container, \<open>Created i\<close> the object
  allocated by the \<open>i\<close>-th evaluation of \<^verbatim>\<open>new\<close>, \<open>Sym k\<close> a symbol. Identity of values
  is equality of the model. Numbers are integers (the priority of a module is an
  integer).
\<close>

datatype val =
    Undefined
  | Null
  | Boolean bool
  | Num int
  | Str string
  | Arr "val list"
  | Fn nat
  | Obj nat
  | Created nat
  | Sym nat

fun typeof :: "val \<Rightarrow> string" where
  "typeof Undefined = ''undefined''"
| "typeof Null = ''object''"
| "typeof (Boolean b) = ''boolean''"
| "typeof (Num n) = ''number''"
| "typeof (Str s) = ''string''"
| "typeof (Arr xs) = ''object''"
| "typeof (Fn k) = ''function''"
| "typeof (Obj r) = ''object''"
| "typeof (Created i) = ''object''"
| "typeof (Sym k) = ''symbol''"

fun truthy :: "val \<Rightarrow> bool" where
  "truthy Undefined = False"
| "truthy Null = False"
| "truthy (Boolean b) = b"
| "truthy (Num n) = (n \<noteq> 0)"
| "truthy (Str s) = (s \<noteq> [])"
| "truthy (Arr xs) = True"
| "truthy (Fn k) = True"
| "truthy (Obj r) = True"
| "truthy (Created i) = True"
| "truthy (Sym k) = True"

text \<open>What a constructor body may return in place of the freshly allocated object.\<close>

fun is_object :: "val \<Rightarrow> bool" where
  "is_object (Arr xs) = True"
| "is_object (Fn k) = True"
| "is_object (Obj r) = True"
| "is_object (Created i) = True"
| "is_object v = False"

text \<open>
  Every \<^verbatim>\<open>new Error(...)\<close> of the source is one constructor, named after the error
  taxonomy of the specification; the argument is what the message interpolates.
  \<open>ReferenceError\<close> and \<open>TypeError\<close> are raised by the language itself, \<open>Thrown\<close> by
  the code of a service or of a hook.
\<close>

datatype error =
    InvalidNameError val
  | DuplicateServiceError val
  | NotRegisteredError val
  | NotFoundError val
  | ServiceConstructionError val error
  | InvalidModuleError string
  | ReferenceError string
  | TypeError
  | Thrown val

datatype outcome = Returns val | Throws error

text \<open>
  The state in which the promise returned by an operation ends. \<open>Unsettled e\<close>: the
  promise is neither resolved nor rejected, because \<open>e\<close> was thrown inside an
  \<^verbatim>\<open>async\<close> executor of \<^verbatim>\<open>new Promise\<close>, whose own promise nobody observes.
\<close>

datatype 'a promise = Fulfilled 'a | Rejected error | Unsettled error

section \<open>Service descriptors\<close>

datatype logging = Standard | NoLogging | LogFn nat

record Options =
  inject :: "val list option"
  disposer :: "nat option"
  initializer :: "nat option"
  logging :: "logging option"
  lazyLoad :: "bool option"
  isFunction :: "bool option"
  isInstance :: "bool option"
  priority :: "int option"
  upsert :: "bool option"

text \<open>
  \<^verbatim>\<open>NoNameServiceOptions\<close> is the value type of the map of services;
  \<^verbatim>\<open>ServiceOptions\<close> adds the name. The name is a value: \<^verbatim>\<open>register\<close> tests
  its type at run time.
\<close>

record NoNameServiceOptions =
  service :: val
  options :: "Options option"

record ServiceOptions = NoNameServiceOptions +
  name :: val

text \<open>\<^verbatim>\<open>s.options?.f\<close> for an optional field, and its truthiness for a boolean one.\<close>

definition opt :: "(Options \<Rightarrow> 'a option) \<Rightarrow> 'b NoNameServiceOptions_scheme \<Rightarrow> 'a option" where
  "opt f s = (case options s of None \<Rightarrow> None | Some os \<Rightarrow> f os)"

definition flag :: "(Options \<Rightarrow> bool option) \<Rightarrow> 'b NoNameServiceOptions_scheme \<Rightarrow> bool" where
  "flag f s = (opt f s = Some True)"

section \<open>The code of services and hooks\<close>

text \<open>
  The functions that the container calls are not its own code; their behaviour is a
  parameter. \<open>body h k args\<close> is the outcome of running function \<open>k\<close> on \<open>args\<close>, \<open>kind\<close>
  says how it may be invoked, \<open>hook h k\<close> is the outcome of the hook \<open>k\<close> (a disposer, an
  initializer or a logging function; for an awaited initializer a rejection counts as a
  throw). \<open>globals\<close> is the global scope in which a free identifier is looked up.
  \<open>thenable h v\<close> says whether the object \<open>v\<close> has a callable \<^verbatim>\<open>then\<close>, and if so
  in which state a promise that is resolved with \<open>v\<close> ends (\<open>Unsettled\<close> when the thenable
  never settles); \<open>string_conversion h v\<close> is the exception, if any, that converting the
  object \<open>v\<close> to a string raises.
  The code of a service or hook is taken not to call back into the container.
\<close>

datatype fn_kind = ClassConstructor | PlainFunction | ArrowFunction

record host =
  body :: "nat \<Rightarrow> val list \<Rightarrow> outcome"
  kind :: "nat \<Rightarrow> fn_kind"
  hook :: "nat \<Rightarrow> outcome"
  globals :: "string \<Rightarrow> val option"
  thenable :: "val \<Rightarrow> val promise option"
  string_conversion :: "val \<Rightarrow> error option"

datatype event =
    Call nat "val list"
  | New nat "val list"
  | LoggingCall nat ServiceOptions
  | ConsoleLog string
  | InitializerCall nat
  | DisposerCall nat NoNameServiceOptions

section \<open>The container\<close>

text \<open>
  \<open>services\<close> is the \<^verbatim>\<open>Map\<close> in insertion order, \<open>props\<close> the properties copied
  from the constructor's options (\<^verbatim>\<open>this.logger\<close> among them). \<open>trace\<close> records every
  call the container makes to foreign code and \<open>allocs\<close> counts the evaluations of
  \<^verbatim>\<open>new\<close>: they make the effects of an operation observable.
\<close>

record Container =
  services :: "(string \<times> NoNameServiceOptions) list"
  props :: "(string \<times> val) list"
  trace :: "event list"
  allocs :: nat

definition emit :: "event \<Rightarrow> Container \<Rightarrow> Container" where
  "emit e c = c\<lparr>trace := trace c @ [e]\<rparr>"

definition services_get :: "Container \<Rightarrow> val \<Rightarrow> NoNameServiceOptions option" where
  "services_get c k = (case k of Str n \<Rightarrow> map_of (services c) n | _ \<Rightarrow> None)"

definition services_has :: "Container \<Rightarrow> val \<Rightarrow> bool" where
  "services_has c k = (services_get c k \<noteq> None)"

definition services_set :: "string \<Rightarrow> NoNameServiceOptions \<Rightarrow> Container \<Rightarrow> Container" where
  "services_set n e c = c\<lparr>services := AList.update n e (services c)\<rparr>"

definition services_delete :: "val \<Rightarrow> Container \<Rightarrow> Container" where
  "services_delete k c =
     (case k of Str n \<Rightarrow> c\<lparr>services := AList.delete n (services c)\<rparr> | _ \<Rightarrow> c)"

definition property :: "Container \<Rightarrow> string \<Rightarrow> val" where
  "property c k = (case map_of (props c) k of None \<Rightarrow> Undefined | Some v \<Rightarrow> v)"

subsection \<open>Conversion to a string, and resolving a promise\<close>

text \<open>
  The exception, if any, that \<^verbatim>\<open>`${v}`\<close> or \<^verbatim>\<open>"..." + v\<close> raises: a symbol does not
  convert to a string, an object converts as its own code decides, every other value
  converts. Only whether a message can be built matters: the errors of the model carry
  the values, not the text.
\<close>

definition ToString_error :: "host \<Rightarrow> val \<Rightarrow> error option" where
  "ToString_error h v =
     (case v of
        Sym k \<Rightarrow> Some TypeError
      | _ \<Rightarrow> if is_object v then string_conversion h v else None)"

text \<open>
  The state of a promise whose resolve function is called with \<open>v\<close>: the promise adopts
  a thenable and is fulfilled with any other value.
\<close>

definition resolve_with :: "host \<Rightarrow> val \<Rightarrow> val promise" where
  "resolve_with h v =
     (if is_object v then (case thenable h v of None \<Rightarrow> Fulfilled v | Some p \<Rightarrow> p)
      else Fulfilled v)"

subsection \<open>Calling and constructing\<close>

text \<open>
  \<^verbatim>\<open>f(...args)\<close>: a value that is not a function, and a class constructor called
  without \<^verbatim>\<open>new\<close>, raise a type error.
\<close>

definition js_call :: "host \<Rightarrow> Container \<Rightarrow> val \<Rightarrow> val list \<Rightarrow> outcome \<times> Container" where
  "js_call h c f args =
     (case f of
        Fn k \<Rightarrow>
          if kind h k = ClassConstructor then (Throws TypeError, c)
          else (body h k args, emit (Call k args) c)
      | _ \<Rightarrow> (Throws TypeError, c))"

text \<open>
  \<^verbatim>\<open>new f(...args)\<close>: a fresh object is allocated and the body runs; the result is
  the object the body returns, if it returns one, and the fresh object otherwise.
\<close>

definition js_new :: "host \<Rightarrow> Container \<Rightarrow> val \<Rightarrow> val list \<Rightarrow> outcome \<times> Container" where
  "js_new h c f args =
     (case f of
        Fn k \<Rightarrow>
          if kind h k = ArrowFunction then (Throws TypeError, c)
          else
            (let c1 = (emit (New k args) c)\<lparr>allocs := Suc (allocs c)\<rparr> in
             case body h k args of
               Throws e \<Rightarrow> (Throws e, c1)
             | Returns r \<Rightarrow>
                 if is_object r then (Returns r, c1) else (Returns (Created (allocs c)), c1))
      | _ \<Rightarrow> (Throws TypeError, c))"

subsection \<open>createServiceInstance\<close>

text \<open>
  The handler builds \<^verbatim>\<open>`Error creating service: ${service.name}: ` + e\<close>: the name is
  converted first, then what was caught; an exception of either conversion leaves the
  handler in place of the wrapped error.
\<close>

definition wrapped_error :: "host \<Rightarrow> val \<Rightarrow> error \<Rightarrow> error" where
  "wrapped_error h n e =
     (case ToString_error h n of
        Some e1 \<Rightarrow> e1
      | None \<Rightarrow>
          (case e of
             Thrown v \<Rightarrow>
               (case ToString_error h v of
                  Some e2 \<Rightarrow> e2
                | None \<Rightarrow> ServiceConstructionError n e)
           | _ \<Rightarrow> ServiceConstructionError n e))"

definition createServiceInstance ::
  "host \<Rightarrow> Container \<Rightarrow> ServiceOptions \<Rightarrow> (error + val) \<times> Container" where
  "createServiceInstance h c s =
     (let injectArgs = (case opt inject s of None \<Rightarrow> [] | Some xs \<Rightarrow> xs);
          r = (if flag isFunction s then js_call h c (service s) injectArgs
               else if flag isInstance s then (Returns (service s), c)
               else js_new h c (service s) injectArgs)
      in case r of
           (Throws e, c1) \<Rightarrow> (Inl (wrapped_error h (name s) e), c1)
         | (Returns v, c1) \<Rightarrow> (Inr v, c1))"

subsection \<open>register\<close>

text \<open>
  The body of the loop of \<^verbatim>\<open>register\<close>, for a descriptor whose name is the string
  \<open>n\<close> and is not yet registered: store, log, initialise. The executor of the promise is
  an \<^verbatim>\<open>async\<close> function, so an exception raised here leaves the promise unsettled.
  A lazy descriptor is stored as it is; the map holds it at its value type, which has
  no name (the container never reads the name of an entry). An eager one is stored as
  \<^verbatim>\<open>{ service: this.createServiceInstance(service) }\<close>, an object with no options.
  The message for a name that is not a string interpolates the name, so a name that
  does not convert to a string raises an exception in place of the rejection.
  At the end the promise is resolved with the container, which is taken not to be a
  thenable.
\<close>

definition storeService ::
  "host \<Rightarrow> Container \<Rightarrow> string \<Rightarrow> ServiceOptions \<Rightarrow> unit promise \<times> Container" where
  "storeService h c n s =
     (if flag lazyLoad s
      then (Fulfilled (), services_set n \<lparr>service = service s, options = options s\<rparr> c)
      else
        (case createServiceInstance h c s of
           (Inl e, c1) \<Rightarrow> (Unsettled e, c1)
         | (Inr v, c1) \<Rightarrow> (Fulfilled (), services_set n \<lparr>service = v, options = None\<rparr> c1)))"

definition logService ::
  "host \<Rightarrow> Container \<Rightarrow> string \<Rightarrow> ServiceOptions \<Rightarrow> unit promise \<times> Container" where
  "logService h c n s =
     (if opt logging s \<noteq> Some NoLogging \<and> \<not> truthy (property c ''logger'') then
        (case opt logging s of
           Some (LogFn k) \<Rightarrow>
             (case hook h k of
                Throws e \<Rightarrow> (Unsettled e, emit (LoggingCall k s) c)
              | Returns _ \<Rightarrow> (Fulfilled (), emit (LoggingCall k s) c))
         | _ \<Rightarrow> (Fulfilled (), emit (ConsoleLog (''Registered service: '' @ n @ ''...'')) c))
      else (Fulfilled (), c))"

definition initService ::
  "host \<Rightarrow> Container \<Rightarrow> ServiceOptions \<Rightarrow> unit promise \<times> Container" where
  "initService h c s =
     (case opt initializer s of
        Some k \<Rightarrow>
          (case hook h k of
             Throws e \<Rightarrow> (Unsettled e, emit (InitializerCall k) c)
           | Returns _ \<Rightarrow> (Fulfilled (), emit (InitializerCall k) c))
      | None \<Rightarrow> (Fulfilled (), c))"

definition registerService ::
  "host \<Rightarrow> Container \<Rightarrow> ServiceOptions \<Rightarrow> unit promise \<times> Container" where
  "registerService h c s =
     (case name s of
        Str n \<Rightarrow>
          if services_has c (name s) then (Rejected (DuplicateServiceError (name s)), c)
          else
            (case storeService h c n s of
               (Fulfilled _, c1) \<Rightarrow>
                 (case logService h c1 n s of
                    (Fulfilled _, c2) \<Rightarrow> initService h c2 s
                  | r \<Rightarrow> r)
             | r \<Rightarrow> r)
      | _ \<Rightarrow>
          (case ToString_error h (name s) of
             Some e \<Rightarrow> (Unsettled e, c)
           | None \<Rightarrow> (Rejected (InvalidNameError (name s)), c)))"

fun register :: "host \<Rightarrow> Container \<Rightarrow> ServiceOptions list \<Rightarrow> unit promise \<times> Container" where
  "register h c [] = (Fulfilled (), c)"
| "register h c (s # ss) =
     (case registerService h c s of
        (Fulfilled _, c1) \<Rightarrow> register h c1 ss
      | r \<Rightarrow> r)"

subsection \<open>resolve\<close>

text \<open>
  The executor is not \<^verbatim>\<open>async\<close>: an exception raised in it, by the constructor or
  by the interpolation of the name into a message, rejects the promise. The value found
  or constructed is handed to the resolve function of the promise.
\<close>

definition resolve :: "host \<Rightarrow> Container \<Rightarrow> val \<Rightarrow> val promise \<times> Container" where
  "resolve h c n =
     (case services_get c n of
        None \<Rightarrow>
          (case ToString_error h n of
             Some e \<Rightarrow> (Rejected e, c)
           | None \<Rightarrow> (Rejected (NotRegisteredError n), c))
      | Some serviceOptions \<Rightarrow>
          if typeof (service serviceOptions) = ''function'' then
            (case js_new h c (service serviceOptions)
                    [case opt inject serviceOptions of None \<Rightarrow> Null | Some xs \<Rightarrow> Arr xs] of
               (Throws e, c1) \<Rightarrow> (Rejected e, c1)
             | (Returns v, c1) \<Rightarrow> (resolve_with h v, c1))
          else (resolve_with h (service serviceOptions), c))"

subsection \<open>dispose\<close>

text \<open>
  The executor is not \<^verbatim>\<open>async\<close>: an exception of the disposer rejects the promise,
  and the statements after the call do not run.
\<close>

definition dispose :: "host \<Rightarrow> Container \<Rightarrow> val \<Rightarrow> unit promise \<times> Container" where
  "dispose h c n =
     (case services_get c n of
        None \<Rightarrow>
          (case ToString_error h n of
             Some e \<Rightarrow> (Rejected e, c)
           | None \<Rightarrow> (Rejected (NotFoundError n), c))
      | Some s \<Rightarrow>
          (case opt disposer s of
             Some d \<Rightarrow>
               (case hook h d of
                  Throws e \<Rightarrow> (Rejected e, emit (DisposerCall d s) c)
                | Returns _ \<Rightarrow> (Fulfilled (), services_delete n (emit (DisposerCall d s) c)))
           | None \<Rightarrow> (Fulfilled (), services_delete n c)))"

subsection \<open>upsert\<close>

text \<open>
  On a registered name the source evaluates \<^verbatim>\<open>await this.dispose(key)\<close>. No
  declaration of \<^verbatim>\<open>key\<close> is in scope in \<^verbatim>\<open>upsert\<close>, in the class or in the module,
  so the identifier is looked up in the global scope, and evaluating it raises a
  reference error when no such global exists.
\<close>

definition upsert :: "host \<Rightarrow> Container \<Rightarrow> ServiceOptions \<Rightarrow> unit promise \<times> Container" where
  "upsert h c s =
     (if \<not> services_has c (name s) then register h c [s]
      else
        (case globals h ''key'' of
           None \<Rightarrow> (Rejected (ReferenceError ''key''), c)
         | Some key \<Rightarrow>
             (case dispose h c key of
                (Fulfilled _, c1) \<Rightarrow> register h c1 [s]
              | r \<Rightarrow> r)))"

subsection \<open>autoLoad\<close>

text \<open>
  The directory and the module loader are outside the container: a directory is given
  as the list of its file names, in the order \<^verbatim>\<open>readdirSync\<close> returns them, each
  with what importing the file yields.
\<close>

datatype imported =
    ImportFails error
  | NotAnObject
  | Exports ServiceOptions

definition startsWith :: "string \<Rightarrow> string \<Rightarrow> bool" where
  "startsWith p s = (take (length p) s = p)"

definition endsWith :: "string \<Rightarrow> string \<Rightarrow> bool" where
  "endsWith p s = (drop (length s - length p) s = p)"

definition moduleFiles :: "(string \<times> imported) list \<Rightarrow> (string \<times> imported) list" where
  "moduleFiles dir = filter (\<lambda>(file, _). endsWith ''.js'' file \<and> \<not> startsWith ''!'' file) dir"

fun scan ::
  "host \<Rightarrow> Container \<Rightarrow> (string \<times> imported) list \<Rightarrow> ServiceOptions list
     \<Rightarrow> (unit promise + ServiceOptions list) \<times> Container" where
  "scan h c [] modules = (Inr modules, c)"
| "scan h c ((file, imp) # files) modules =
     (case imp of
        ImportFails e \<Rightarrow> (Inl (Rejected e), c)
      | NotAnObject \<Rightarrow> (Inl (Rejected (InvalidModuleError file)), c)
      | Exports m \<Rightarrow>
          if services_has c (name m) then
            (if flag Options.upsert m then
               (case dispose h c (name m) of
                  (Fulfilled _, c1) \<Rightarrow> scan h c1 files (modules @ [m])
                | (r, c1) \<Rightarrow> (Inl r, c1))
             else (Inl (Rejected (DuplicateServiceError (name m))), c))
          else scan h c files (modules @ [m]))"

text \<open>\<^verbatim>\<open>(a, b) => (b.options?.priority || 0) - (a.options?.priority || 0)\<close>\<close>

definition priorityOf :: "ServiceOptions \<Rightarrow> int" where
  "priorityOf m = (case opt priority m of None \<Rightarrow> 0 | Some p \<Rightarrow> p)"

definition compareFn :: "ServiceOptions \<Rightarrow> ServiceOptions \<Rightarrow> int" where
  "compareFn a b = priorityOf b - priorityOf a"

text \<open>
  \<^verbatim>\<open>Array.prototype.sort\<close> with a comparator is a stable sort (ECMAScript 2019):
  elements that compare equal keep their order. A stable sort by a consistent comparator
  has one result, which insertion from the right computes.
\<close>

fun insert_by :: "('a \<Rightarrow> 'a \<Rightarrow> int) \<Rightarrow> 'a \<Rightarrow> 'a list \<Rightarrow> 'a list" where
  "insert_by cmp x [] = [x]"
| "insert_by cmp x (y # ys) = (if cmp x y \<le> 0 then x # y # ys else y # insert_by cmp x ys)"

definition array_sort :: "('a \<Rightarrow> 'a \<Rightarrow> int) \<Rightarrow> 'a list \<Rightarrow> 'a list" where
  "array_sort cmp xs = foldr (insert_by cmp) xs []"

definition autoLoad ::
  "host \<Rightarrow> Container \<Rightarrow> (string \<times> imported) list \<Rightarrow> unit promise \<times> Container" where
  "autoLoad h c dir =
     (case scan h c (moduleFiles dir) [] of
        (Inl r, c1) \<Rightarrow> (r, c1)
      | (Inr modules, c1) \<Rightarrow> register h c1 (array_sort compareFn modules))"

subsection \<open>The constructor and the current instance\<close>

text \<open>
  Containers live in the heap of the process, addressed by their index; the static
  field \<^verbatim>\<open>Container.instance\<close> holds an address, or nothing before the first
  construction. The constructor assigns the static field first and then copies every
  key of its options onto the new object. The options are given as the list of their
  keys and values; none of them is taken to bear the name of a field of the class.
\<close>

record process =
  heap :: "Container list"
  instance_field :: "nat option"

definition new_Container :: "(string \<times> val) list \<Rightarrow> process \<Rightarrow> nat \<times> process" where
  "new_Container opts p =
     (let this = length (heap p);
          p1 = p\<lparr>heap := heap p @ [\<lparr>services = [], props = [], trace = [], allocs = 0\<rparr>],
                 instance_field := Some this\<rparr>;
          obj = fold (\<lambda>(key, v) c. c\<lparr>props := AList.update key v (props c)\<rparr>) opts (heap p1 ! this)
      in (this, p1\<lparr>heap := (heap p1)[this := obj]\<rparr>))"

definition getInstance :: "process \<Rightarrow> nat option" where
  "getInstance p = instance_field p"

section \<open>Example inputs\<close>

text \<open>
  A host as Node.js provides it to a program that defines no global of its own: no
  global named \<^verbatim>\<open>key\<close>. Every function is a class whose constructor completes and
  returns nothing, every hook returns, no object is a thenable and every object converts
  to a string. \<open>failing_host\<close> differs in that every hook throws.
\<close>

definition node_host :: host where
  "node_host = \<lparr>body = (\<lambda>k args. Returns Undefined), kind = (\<lambda>k. ClassConstructor),
                hook = (\<lambda>k. Returns Undefined), globals = (\<lambda>x. None),
                thenable = (\<lambda>v. None), string_conversion = (\<lambda>v. None)\<rparr>"

definition failing_host :: host where
  "failing_host = \<lparr>body = (\<lambda>k args. Returns Undefined), kind = (\<lambda>k. ClassConstructor),
                   hook = (\<lambda>k. Throws (Thrown (Str ''boom''))), globals = (\<lambda>x. None),
                   thenable = (\<lambda>v. None), string_conversion = (\<lambda>v. None)\<rparr>"

text \<open>A host in which every constructor returns one and the same object of its own.\<close>

definition singleton_host :: host where
  "singleton_host = \<lparr>body = (\<lambda>k args. Returns (Obj 9)), kind = (\<lambda>k. ClassConstructor),
                     hook = (\<lambda>k. Returns Undefined), globals = (\<lambda>x. None),
                     thenable = (\<lambda>v. None), string_conversion = (\<lambda>v. None)\<rparr>"

definition empty_container :: Container where
  "empty_container = \<lparr>services = [], props = [], trace = [], allocs = 0\<rparr>"

definition no_options :: Options where
  "no_options = \<lparr>inject = None, disposer = None, initializer = None, logging = None,
     lazyLoad = None, isFunction = None, isInstance = None, priority = None, upsert = None\<rparr>"

text \<open>
  Descriptors: a lazy and an eager class service with two arguments to inject and a
  disposer, a second service, a replacement for the first, a function registered as an
  instance, a service named by the empty string, one named by a symbol and one named by
  a number.
\<close>

definition lazy_A :: ServiceOptions where
  "lazy_A = \<lparr>service = Fn 1,
     options = Some (no_options\<lparr>inject := Some [Num 1, Num 2], disposer := Some 7,
                                lazyLoad := Some True\<rparr>),
     name = Str ''A''\<rparr>"

definition eager_A :: ServiceOptions where
  "eager_A = \<lparr>service = Fn 1,
     options = Some (no_options\<lparr>inject := Some [Num 1, Num 2], disposer := Some 7\<rparr>),
     name = Str ''A''\<rparr>"

definition plain_B :: ServiceOptions where
  "plain_B = \<lparr>service = Fn 2, options = None, name = Str ''B''\<rparr>"

definition replacement_A :: ServiceOptions where
  "replacement_A = \<lparr>service = Fn 2, options = Some (no_options\<lparr>upsert := Some True\<rparr>),
     name = Str ''A''\<rparr>"

definition formatter :: ServiceOptions where
  "formatter = \<lparr>service = Fn 3, options = Some (no_options\<lparr>isInstance := Some True\<rparr>),
     name = Str ''fmt''\<rparr>"




text \<open>The containers in which these have been registered.\<close>

definition container_A :: Container where
  "container_A = snd (register node_host empty_container [lazy_A])"

definition container_eager_A :: Container where
  "container_eager_A = snd (register node_host empty_container [eager_A])"

definition container_fmt :: Container where
  "container_fmt = snd (register node_host empty_container [formatter])"

definition container_AB :: Container where
  "container_AB = snd (register node_host empty_container [lazy_A, plain_B])"

text \<open>
  A directory of three modules of priorities 1, 5 and 3, a file excluded by its mark and
  one excluded by its extension; and a directory whose first module replaces a
  registered service and whose second one collides with one.
\<close>

definition module_of :: "string \<Rightarrow> int \<Rightarrow> ServiceOptions" where
  "module_of n p = \<lparr>service = Fn 1, options = Some (no_options\<lparr>priority := Some p\<rparr>),
     name = Str n\<rparr>"

definition priority_dir :: "(string \<times> imported) list" where
  "priority_dir =
     [(''low.js'', Exports (module_of ''low'' 1)),
      (''!skipped.js'', NotAnObject),
      (''high.js'', Exports (module_of ''high'' 5)),
      (''notes.md'', NotAnObject),
      (''mid.js'', Exports (module_of ''mid'' 3))]"

definition colliding_dir :: "(string \<times> imported) list" where
  "colliding_dir = [(''a.js'', Exports replacement_A), (''b.js'', Exports plain_B)]"

text \<open>
  Modules of which two have the same priority, and a directory whose second module
  collides with a registered service while the first names a new one.
\<close>

definition tied_modules :: "ServiceOptions list" where
  "tied_modules = [module_of ''first'' 1, module_of ''second'' 1, module_of ''third'' 2]"

definition duplicate_dir :: "(string \<times> imported) list" where
  "duplicate_dir = [(''c.js'', Exports (module_of ''C'' 2)), (''b.js'', Exports plain_B)]"

section \<open>What the operations leave unchanged\<close>

lemma services_emit [simp]: "services (emit e c) = services c"
  by (simp add: emit_def)

lemma props_emit [simp]: "props (emit e c) = props c"
  by (simp add: emit_def)

lemma services_get_emit [simp]: "services_get (emit e c) k = services_get c k"
  by (simp add: services_get_def split: val.splits)

lemma js_call_frame:
  "js_call h c f args = (r, c1) \<Longrightarrow> services c1 = services c \<and> props c1 = props c"
  by (auto simp: js_call_def split: val.splits if_splits)

lemma js_new_frame:
  "js_new h c f args = (r, c1) \<Longrightarrow> services c1 = services c \<and> props c1 = props c"
  by (auto simp: js_new_def Let_def split: val.splits if_splits outcome.splits)

lemma createServiceInstance_frame:
  "createServiceInstance h c s = (r, c1) \<Longrightarrow> services c1 = services c \<and> props c1 = props c"
  by (auto simp: createServiceInstance_def Let_def
      split: if_splits prod.splits outcome.splits dest: js_call_frame js_new_frame)

lemma logService_frame:
  "logService h c n s = (r, c1) \<Longrightarrow> services c1 = services c \<and> props c1 = props c"
  by (auto simp: logService_def split: if_splits option.splits logging.splits outcome.splits)

lemma initService_frame:
  "initService h c s = (r, c1) \<Longrightarrow> services c1 = services c \<and> props c1 = props c"
  by (auto simp: initService_def split: option.splits outcome.splits)

lemma update_absent: "map_of al k = None \<Longrightarrow> AList.update k v al = al @ [(k, v)]"
  by (induction al) (auto split: if_splits)

section \<open>The loop of register\<close>

text \<open>What a step of the loop that lets the loop go on has done.\<close>

lemma registerService_Fulfilled:
  assumes "registerService h c s = (Fulfilled u, c')"
  shows "\<exists>n e. name s = Str n \<and> map_of (services c) n = None
           \<and> services c' = services c @ [(n, e)]
           \<and> (if flag lazyLoad s then e = \<lparr>service = service s, options = options s\<rparr>
               else \<exists>v c1. createServiceInstance h c s = (Inr v, c1)
                      \<and> e = \<lparr>service = v, options = None\<rparr>)"
proof -
  from assms obtain n where n: "name s = Str n"
    by (auto simp: registerService_def split: val.splits option.splits)
  from assms n have absent: "map_of (services c) n = None"
    by (auto simp: registerService_def services_has_def services_get_def split: if_splits)
  from assms n absent obtain c1 c2 where
    st: "storeService h c n s = (Fulfilled (), c1)" and
    lg: "logService h c1 n s = (Fulfilled (), c2)" and
    ini: "initService h c2 s = (Fulfilled u, c')"
    by (auto simp: registerService_def services_has_def services_get_def
        split: if_splits prod.splits promise.splits)
  have same: "services c' = services c1"
    using logService_frame[OF lg] initService_frame[OF ini] by simp
  show ?thesis
  proof (cases "flag lazyLoad s")
    case True
    with st have "services c1 = services c @ [(n, \<lparr>service = service s, options = options s\<rparr>)]"
      by (auto simp: storeService_def services_set_def update_absent[OF absent])
    with n absent same True show ?thesis by auto
  next
    case False
    with st obtain v c0 where
      cr: "createServiceInstance h c s = (Inr v, c0)" and
      c1: "c1 = services_set n \<lparr>service = v, options = None\<rparr> c0"
      by (auto simp: storeService_def split: prod.splits sum.splits)
    have "services c0 = services c" using createServiceInstance_frame[OF cr] by simp
    with c1 have "services c1 = services c @ [(n, \<lparr>service = v, options = None\<rparr>)]"
      by (simp add: services_set_def update_absent[OF absent])
    with n absent same False cr show ?thesis by auto
  qed
qed

lemma register_append:
  "register h c (xs @ ys) =
     (case register h c xs of (Fulfilled u, c1) \<Rightarrow> register h c1 ys | r \<Rightarrow> r)"
  by (induction xs arbitrary: c) (auto split: prod.splits promise.splits)

lemma register_Cons_Fulfilled:
  assumes "register h c (d # ds) = (Fulfilled u, c')"
  obtains c1 where "registerService h c d = (Fulfilled (), c1)"
    and "register h c1 ds = (Fulfilled u, c')"
  using assms by (auto split: prod.splits promise.splits)

text \<open>A batch that succeeds keeps every entry it found.\<close>

lemma register_Fulfilled_keeps:
  "register h c ds = (Fulfilled u, c') \<Longrightarrow> map_of (services c) k = Some e
     \<Longrightarrow> map_of (services c') k = Some e"
proof (induction ds arbitrary: c)
  case Nil
  then show ?case by simp
next
  case (Cons d ds)
  from Cons.prems(1) obtain c1 where
    step: "registerService h c d = (Fulfilled (), c1)" and rest: "register h c1 ds = (Fulfilled u, c')"
    by (rule register_Cons_Fulfilled)
  from registerService_Fulfilled[OF step] Cons.prems(2)
  have "map_of (services c1) k = Some e" by auto
  with Cons.IH[OF rest] show ?case .
qed

text \<open>A batch that succeeds appends its names to the map, in the order of the batch.\<close>

lemma register_Fulfilled_keys:
  "register h c ds = (Fulfilled u, c')
     \<Longrightarrow> map (\<lambda>p. Str (fst p)) (services c') = map (\<lambda>p. Str (fst p)) (services c) @ map name ds"
proof (induction ds arbitrary: c)
  case Nil
  then show ?case by simp
next
  case (Cons d ds)
  from Cons.prems(1) obtain c1 where
    step: "registerService h c d = (Fulfilled (), c1)" and rest: "register h c1 ds = (Fulfilled u, c')"
    by (rule register_Cons_Fulfilled)
  from registerService_Fulfilled[OF step]
  have "map (\<lambda>p. Str (fst p)) (services c1) = map (\<lambda>p. Str (fst p)) (services c) @ [name d]"
    by auto
  with Cons.IH[OF rest] show ?case by simp
qed

text \<open>The entry that a batch that succeeds holds for one of its descriptors.\<close>

lemma register_entry:
  assumes "register h c (pre @ s # post) = (Fulfilled (), c')" and "name s = Str n"
  shows "\<exists>c1 e. register h c pre = (Fulfilled (), c1)
           \<and> services_get c' (Str n) = Some e
           \<and> (if flag lazyLoad s then e = \<lparr>service = service s, options = options s\<rparr>
               else \<exists>v c2. createServiceInstance h c1 s = (Inr v, c2)
                      \<and> e = \<lparr>service = v, options = None\<rparr>)"
proof -
  from assms(1) obtain c1 where pre: "register h c pre = (Fulfilled (), c1)"
    and tl: "register h c1 (s # post) = (Fulfilled (), c')"
    by (auto simp: register_append split: prod.splits promise.splits)
  from tl obtain c3 where step: "registerService h c1 s = (Fulfilled (), c3)"
    and rest: "register h c3 post = (Fulfilled (), c')"
    by (rule register_Cons_Fulfilled)
  from registerService_Fulfilled[OF step] assms(2) obtain e where
    sv: "services c3 = services c1 @ [(n, e)]" and
    ab: "map_of (services c1) n = None" and
    e: "if flag lazyLoad s then e = \<lparr>service = service s, options = options s\<rparr>
        else \<exists>v c2. createServiceInstance h c1 s = (Inr v, c2) \<and> e = \<lparr>service = v, options = None\<rparr>"
    by auto
  from sv ab have "map_of (services c3) n = Some e"
    by (simp add: map_add_def)
  from register_Fulfilled_keeps[OF rest this]
  have "services_get c' (Str n) = Some e"
    by (simp add: services_get_def)
  with pre e show ?thesis by blast
qed

lemma services_has_delete: "\<not> services_has (services_delete n c) n"
  by (simp add: services_has_def services_get_def services_delete_def delete_conv'
      split: val.splits)


section \<open>The scan and the sort of autoLoad\<close>

lemma insert_by_insort: "insert_by compareFn x ys = insort_key (\<lambda>m. - priorityOf m) x ys"
  by (induction ys) (auto simp: compareFn_def)

lemma array_sort_sort_key: "array_sort compareFn xs = sort_key (\<lambda>m. - priorityOf m) xs"
  unfolding array_sort_def sort_key_def
  by (induction xs) (auto simp: insert_by_insort)

lemma array_sort_descending:
  "sorted_wrt (\<lambda>a b. priorityOf b \<le> priorityOf a) (array_sort compareFn xs)"
proof -
  have "sorted (map (\<lambda>m. - priorityOf m) (sort_key (\<lambda>m. - priorityOf m) xs))"
    by (rule sorted_sort_key)
  then show ?thesis
    by (simp add: array_sort_sort_key sorted_wrt_map)
qed

lemma array_sort_stable:
  "filter (\<lambda>m. priorityOf m = p) (array_sort compareFn xs) = filter (\<lambda>m. priorityOf m = p) xs"
proof -
  have "filter (\<lambda>m. - priorityOf m = - p) (sort_key (\<lambda>m. - priorityOf m) xs)
          = filter (\<lambda>m. - priorityOf m = - p) xs"
    by (rule sort_key_stable)
  then show ?thesis
    by (simp add: array_sort_sort_key)
qed

lemma scan_Inr:
  "scan h c files acc = (Inr ms, c1) \<Longrightarrow> map Exports ms = map Exports acc @ map snd files"
proof (induction files arbitrary: c acc)
  case Nil
  then show ?case by simp
next
  case (Cons f files)
  obtain fl imp where f: "f = (fl, imp)" by (cases f)
  from Cons.prems f obtain m where m: "imp = Exports m"
    by (cases imp) auto
  from Cons.prems f m obtain c2 where "scan h c2 files (acc @ [m]) = (Inr ms, c1)"
    by (auto split: if_splits prod.splits promise.splits)
  from Cons.IH[OF this] f m show ?case by simp
qed

lemma scan_unregistered:
  "\<forall>x\<in>set pre. \<exists>m'. snd x = Exports m' \<and> \<not> services_has c (name m')
     \<Longrightarrow> \<exists>ms. scan h c (pre @ rest) acc = scan h c rest (acc @ ms)"
proof (induction pre arbitrary: acc)
  case Nil
  have "scan h c ([] @ rest) acc = scan h c rest (acc @ [])" by simp
  then show ?case by blast
next
  case (Cons f pre)
  obtain fl imp where f: "f = (fl, imp)" by (cases f)
  from Cons.prems f obtain m where m: "imp = Exports m" "\<not> services_has c (name m)"
    by auto
  from Cons.prems have "\<forall>x\<in>set pre. \<exists>m'. snd x = Exports m' \<and> \<not> services_has c (name m')"
    by simp
  from Cons.IH[OF this, of "acc @ [m]"] obtain ms where
    "scan h c (pre @ rest) (acc @ [m]) = scan h c rest (acc @ [m] @ ms)"
    by auto
  with f m have "scan h c ((f # pre) @ rest) acc = scan h c rest (acc @ (m # ms))"
    by simp
  then show ?case by blast
qed

section \<open>The example containers\<close>

lemmas model_defs =
  node_host_def failing_host_def empty_container_def no_options_def
  registerService_def storeService_def logService_def initService_def
  createServiceInstance_def js_new_def js_call_def emit_def
  services_has_def services_get_def services_set_def services_delete_def property_def
  opt_def flag_def resolve_def dispose_def resolve_with_def ToString_error_def
  wrapped_error_def singleton_host_def

lemma container_A:
  "container_A =
      \<lparr>services = [(''A'', \<lparr>service = Fn 1, options = options lazy_A\<rparr>)], props = [],
       trace = [ConsoleLog ''Registered service: A...''], allocs = 0\<rparr>"
  by (simp add: container_A_def model_defs lazy_A_def)

lemma register_eager_A:
  "register node_host empty_container [eager_A] = (Fulfilled (), container_eager_A)"
  by (simp add: container_eager_A_def model_defs eager_A_def)

lemma container_eager_A:
  "container_eager_A =
      \<lparr>services = [(''A'', \<lparr>service = Created 0, options = None\<rparr>)], props = [],
       trace = [New 1 [Num 1, Num 2], ConsoleLog ''Registered service: A...''], allocs = 1\<rparr>"
  by (simp add: container_eager_A_def model_defs eager_A_def)

lemma register_formatter:
  "register node_host empty_container [formatter] = (Fulfilled (), container_fmt)"
  by (simp add: container_fmt_def model_defs formatter_def)

lemma container_fmt:
  "container_fmt =
      \<lparr>services = [(''fmt'', \<lparr>service = Fn 3, options = None\<rparr>)], props = [],
       trace = [ConsoleLog ''Registered service: fmt...''], allocs = 0\<rparr>"
  by (simp add: container_fmt_def model_defs formatter_def)


lemma container_AB:
  "container_AB =
      \<lparr>services = [(''A'', \<lparr>service = Fn 1, options = options lazy_A\<rparr>),
                   (''B'', \<lparr>service = Created 0, options = None\<rparr>)], props = [],
       trace = [ConsoleLog ''Registered service: A...'', New 2 [],
                ConsoleLog ''Registered service: B...''], allocs = 1\<rparr>"
  by (simp add: container_AB_def model_defs lazy_A_def plain_B_def)

lemma moduleFiles_priority_dir:
  "moduleFiles priority_dir =
     [(''low.js'', Exports (module_of ''low'' 1)), (''high.js'', Exports (module_of ''high'' 5)),
      (''mid.js'', Exports (module_of ''mid'' 3))]"
  by (simp add: moduleFiles_def priority_dir_def startsWith_def endsWith_def)

lemma moduleFiles_duplicate_dir:
  "moduleFiles duplicate_dir = [(''c.js'', Exports (module_of ''C'' 2))] @ (''b.js'', Exports plain_B) # []"
  by (simp add: moduleFiles_def duplicate_dir_def startsWith_def endsWith_def)

section \<open>The claims\<close>

text \<open>
  C1. On a descriptor whose name is already registered, upsert should dispose the
  existing entry (its disposer firing once) and register the new descriptor. The code
  does not: where no global named \<^verbatim>\<open>key\<close> exists, \<^verbatim>\<open>upsert\<close> on a registered name is
  rejected with a reference error and the container is left as it was, the old entry
  in place and its disposer not called.
\<close>

theorem upsert_registered_name_rejects:
  assumes "services_has c (name s)" and "globals h ''key'' = None"
  shows "upsert h c s = (Rejected (ReferenceError ''key''), c)"
  using assms by (simp add: upsert_def)

theorem upsert_registered_name_rejects_witness:
  "upsert node_host container_A replacement_A = (Rejected (ReferenceError ''key''), container_A)
   \<and> services container_A = [(''A'', \<lparr>service = Fn 1, options = options lazy_A\<rparr>)]
   \<and> trace container_A = [ConsoleLog ''Registered service: A...'']"
proof -
  have has: "services_has container_A (name replacement_A)"
    by (simp add: container_A services_has_def services_get_def replacement_A_def)
  have no_key: "globals node_host ''key'' = None"
    by (simp add: node_host_def)
  from upsert_registered_name_rejects [OF has no_key] show ?thesis
    by (simp add: container_A)
qed

text \<open>
  C2. Resolving a lazy class service should construct the payload with the arguments
  to inject spread as separate arguments. The code does not: whenever the stored
  payload is a function, \<^verbatim>\<open>resolve\<close> constructs it with exactly one argument, the whole
  array of arguments to inject, or \<^verbatim>\<open>null\<close> when there is none; it does so whatever the
  descriptor says about being a function. \<^verbatim>\<open>createServiceInstance\<close>, used for eager
  services, spreads them.
\<close>

theorem resolve_passes_inject_as_one_argument:
  assumes "services_get c n = Some e" and "service e = Fn k" and "kind h k \<noteq> ArrowFunction"
  shows "trace (snd (resolve h c n)) =
           trace c @ [New k [case opt inject e of None \<Rightarrow> Null | Some xs \<Rightarrow> Arr xs]]"
  using assms
  by (simp add: resolve_def js_new_def emit_def Let_def split: outcome.splits)

theorem resolve_passes_inject_as_one_argument_witness:
  "trace (snd (resolve node_host container_A (Str ''A''))) =
     [ConsoleLog ''Registered service: A...'', New 1 [Arr [Num 1, Num 2]]]
   \<and> trace (snd (createServiceInstance node_host empty_container lazy_A)) =
     [New 1 [Num 1, Num 2]]"
proof -
  have "trace (snd (createServiceInstance node_host empty_container lazy_A)) =
     [New 1 [Num 1, Num 2]]"
    by (simp add: model_defs lazy_A_def)
  moreover have "services_get container_A (Str ''A'')
      = Some \<lparr>service = Fn 1, options = options lazy_A\<rparr>"
    by (simp add: container_A services_get_def)
  then have "trace (snd (resolve node_host container_A (Str ''A'')))
      = trace container_A
          @ [New 1 [case opt inject \<lparr>service = Fn 1, options = options lazy_A\<rparr> of
                      None \<Rightarrow> Null | Some xs \<Rightarrow> Arr xs]]"
    by (rule resolve_passes_inject_as_one_argument) (simp_all add: node_host_def)
  ultimately show ?thesis
    by (simp add: container_A opt_def lazy_A_def no_options_def)
qed

text \<open>
  C3. An eager service should resolve, on every call, to the identical value realized at
  registration, with no new instantiation. The code does not when that value is a
  function: \<^verbatim>\<open>resolve\<close> tells a deferred constructor from a realized value by
  \<^verbatim>\<open>typeof\<close> alone. For a function registered as an instance, the entry holds the
  function, and every \<^verbatim>\<open>resolve\<close> runs \<^verbatim>\<open>new\<close> on it with the one argument
  \<^verbatim>\<open>null\<close>: the constructor call is recorded, an object is allocated, and the promise is
  resolved with the outcome of the construction, not with the stored function.
\<close>

theorem resolve_eager_function_value_is_constructed:
  assumes "register h c (pre @ s # post) = (Fulfilled (), c')"
    and "name s = Str n" and "\<not> flag lazyLoad s"
    and "\<not> flag isFunction s" and "flag isInstance s" and "service s = Fn k"
    and "kind h k \<noteq> ArrowFunction"
  shows "services_get c' (Str n) = Some \<lparr>service = Fn k, options = None\<rparr>
       \<and> resolve h c' (Str n) =
           (case body h k [Null] of
              Throws e \<Rightarrow> Rejected e
            | Returns r \<Rightarrow> resolve_with h (if is_object r then r else Created (allocs c')),
            (emit (New k [Null]) c')\<lparr>allocs := Suc (allocs c')\<rparr>)"
proof -
  from register_entry[OF assms(1,2)] assms(3) obtain c1 c2 v where
    cr: "createServiceInstance h c1 s = (Inr v, c2)" and
    got: "services_get c' (Str n) = Some \<lparr>service = v, options = None\<rparr>"
    by auto
  from assms(4,5) have "createServiceInstance h c1 s = (Inr (service s), c1)"
    by (simp add: createServiceInstance_def)
  with cr assms(6) have v: "v = Fn k" by simp
  with got have stored: "services_get c' (Str n) = Some \<lparr>service = Fn k, options = None\<rparr>"
    by simp
  with assms(7) have "resolve h c' (Str n) =
           (case body h k [Null] of
              Throws e \<Rightarrow> Rejected e
            | Returns r \<Rightarrow> resolve_with h (if is_object r then r else Created (allocs c')),
            (emit (New k [Null]) c')\<lparr>allocs := Suc (allocs c')\<rparr>)"
    by (simp add: resolve_def js_new_def Let_def opt_def split: outcome.splits)
  with stored show ?thesis by simp
qed

theorem resolve_eager_function_value_is_constructed_witness:
  "services_get container_fmt (Str ''fmt'') = Some \<lparr>service = Fn 3, options = None\<rparr>
   \<and> fst (resolve node_host container_fmt (Str ''fmt'')) = Fulfilled (Created 0)
   \<and> trace (snd (resolve node_host container_fmt (Str ''fmt'')))
       = [ConsoleLog ''Registered service: fmt...'', New 3 [Null]]
   \<and> fst (resolve node_host (snd (resolve node_host container_fmt (Str ''fmt''))) (Str ''fmt''))
       = Fulfilled (Created 1)"
proof -
  have reg: "register node_host empty_container ([] @ formatter # []) = (Fulfilled (), container_fmt)"
    using register_formatter by simp
  have nm: "name formatter = Str ''fmt''" and eager: "\<not> flag lazyLoad formatter"
    and nofn: "\<not> flag isFunction formatter" and inst: "flag isInstance formatter"
    and sv: "service formatter = Fn 3"
    by (simp_all add: formatter_def flag_def opt_def no_options_def)
  have constructible: "kind node_host 3 \<noteq> ArrowFunction"
    by (simp add: node_host_def)
  from resolve_eager_function_value_is_constructed[OF reg nm eager nofn inst sv constructible]
  have stored: "services_get container_fmt (Str ''fmt'') = Some \<lparr>service = Fn 3, options = None\<rparr>"
    and first: "resolve node_host container_fmt (Str ''fmt'') =
           (case body node_host 3 [Null] of
              Throws e \<Rightarrow> Rejected e
            | Returns r \<Rightarrow>
                resolve_with node_host (if is_object r then r else Created (allocs container_fmt)),
            (emit (New 3 [Null]) container_fmt)\<lparr>allocs := Suc (allocs container_fmt)\<rparr>)"
    by simp_all
  have first': "resolve node_host container_fmt (Str ''fmt'') =
      (Fulfilled (Created 0),
       \<lparr>services = [(''fmt'', \<lparr>service = Fn 3, options = None\<rparr>)], props = [],
        trace = [ConsoleLog ''Registered service: fmt...'', New 3 [Null]], allocs = 1\<rparr>)"
    unfolding first by (simp add: container_fmt node_host_def resolve_with_def emit_def)
  have "fst (resolve node_host
       \<lparr>services = [(''fmt'', \<lparr>service = Fn 3, options = None\<rparr>)], props = [],
        trace = [ConsoleLog ''Registered service: fmt...'', New 3 [Null]], allocs = 1\<rparr>
       (Str ''fmt'')) = Fulfilled (Created 1)"
    by (simp add: model_defs)
  with stored first' show ?thesis by simp
qed

text \<open>
  C4. The entry of an eager service should keep the hooks of its descriptor, so that
  \<^verbatim>\<open>dispose\<close> calls the disposer. The code does not: the entry of an eager service is
  the realized value alone, and disposing it calls nothing; the trace is unchanged.
\<close>

theorem dispose_eager_never_calls_disposer:
  assumes "register h c (pre @ s # post) = (Fulfilled (), c')"
    and "name s = Str n" and "\<not> flag lazyLoad s"
  shows "dispose h c' (Str n) = (Fulfilled (), services_delete (Str n) c')
         \<and> trace (snd (dispose h c' (Str n))) = trace c'"
proof -
  from register_entry[OF assms(1,2)] assms(3) obtain v where
    "services_get c' (Str n) = Some \<lparr>service = v, options = None\<rparr>"
    by auto
  then show ?thesis
    by (simp add: dispose_def opt_def services_delete_def)
qed

theorem dispose_eager_never_calls_disposer_witness:
  "opt disposer eager_A = Some 7
   \<and> fst (dispose node_host container_eager_A (Str ''A'')) = Fulfilled ()
   \<and> trace (snd (dispose node_host container_eager_A (Str ''A'')))
       = [New 1 [Num 1, Num 2], ConsoleLog ''Registered service: A...'']"
proof -
  have reg: "register node_host empty_container ([] @ eager_A # []) = (Fulfilled (), container_eager_A)"
    using register_eager_A by simp
  have nm: "name eager_A = Str ''A''" and eager: "\<not> flag lazyLoad eager_A"
    by (simp_all add: eager_A_def flag_def opt_def no_options_def)
  have "opt disposer eager_A = Some 7"
    by (simp add: eager_A_def opt_def no_options_def)
  moreover have "trace container_eager_A = [New 1 [Num 1, Num 2], ConsoleLog ''Registered service: A...'']"
    by (simp add: container_eager_A)
  ultimately show ?thesis
    using dispose_eager_never_calls_disposer[OF reg nm eager] by (simp add: services_delete_def)
qed

text \<open>
  C5. \<^verbatim>\<open>dispose\<close> should remove a registered name even when the disposer throws. As
  stated this fails: the exception leaves the executor before the deletion. Amended:
  \<^verbatim>\<open>dispose\<close> of a registered name succeeds and removes the name when the entry has
  no disposer or its disposer returns; when the disposer throws, \<^verbatim>\<open>dispose\<close> is
  rejected with what was thrown and the entry stays.
\<close>

theorem dispose_removes_unless_disposer_throws:
  assumes "services_get c n = Some s"
  shows "case opt disposer s of
           None \<Rightarrow> fst (dispose h c n) = Fulfilled () \<and> \<not> services_has (snd (dispose h c n)) n
         | Some d \<Rightarrow>
             (case hook h d of
                Returns v \<Rightarrow>
                  fst (dispose h c n) = Fulfilled () \<and> \<not> services_has (snd (dispose h c n)) n
              | Throws e \<Rightarrow>
                  dispose h c n = (Rejected e, emit (DisposerCall d s) c)
                  \<and> services_get (snd (dispose h c n)) n = Some s)"
  using assms
  by (simp add: dispose_def services_has_delete split: option.splits outcome.splits)

theorem dispose_removes_unless_disposer_throws_witness:
  "fst (dispose failing_host container_A (Str ''A'')) = Rejected (Thrown (Str ''boom''))
   \<and> services_get (snd (dispose failing_host container_A (Str ''A''))) (Str ''A'')
       = Some \<lparr>service = Fn 1, options = options lazy_A\<rparr>
   \<and> fst (dispose node_host container_A (Str ''A'')) = Fulfilled ()
   \<and> \<not> services_has (snd (dispose node_host container_A (Str ''A''))) (Str ''A'')"
proof -
  have got: "services_get container_A (Str ''A'') = Some \<lparr>service = Fn 1, options = options lazy_A\<rparr>"
    by (simp add: container_A services_get_def)
  have d: "opt disposer \<lparr>service = Fn 1, options = options lazy_A\<rparr> = Some 7"
    by (simp add: opt_def lazy_A_def no_options_def)
  have "hook failing_host 7 = Throws (Thrown (Str ''boom''))" "hook node_host 7 = Returns Undefined"
    by (simp_all add: failing_host_def node_host_def)
  with d got dispose_removes_unless_disposer_throws[OF got, of failing_host]
    dispose_removes_unless_disposer_throws[OF got, of node_host]
  show ?thesis by simp
qed

theorem dispose_throwing_disposer_counterexample:
  "services_has container_A (Str ''A'')
   \<and> fst (dispose failing_host container_A (Str ''A'')) = Rejected (Thrown (Str ''boom''))
   \<and> services_has (snd (dispose failing_host container_A (Str ''A''))) (Str ''A'')"
  by (simp add: container_A model_defs lazy_A_def)




text \<open>
  C7. When every discovered module passes the scan, \<^verbatim>\<open>autoLoad\<close> registers the
  descriptors in order of descending priority, a missing priority counting as 0, and
  descriptors of equal priority in their discovery order. The modules are the default
  exports of the files retained, in the order of the directory; \<^verbatim>\<open>autoLoad\<close> is
  \<^verbatim>\<open>register\<close> applied to their sorted list, which is descending, keeps the order of
  the modules of each priority and, when the registration succeeds, is the order in
  which the names are appended to the map.
\<close>

theorem autoLoad_registers_in_priority_order:
  assumes "scan h c (moduleFiles dir) [] = (Inr ms, c1)"
  shows "map Exports ms = map snd (moduleFiles dir)
       \<and> autoLoad h c dir = register h c1 (array_sort compareFn ms)
       \<and> sorted_wrt (\<lambda>a b. priorityOf b \<le> priorityOf a) (array_sort compareFn ms)
       \<and> (\<forall>p. filter (\<lambda>m. priorityOf m = p) (array_sort compareFn ms)
                = filter (\<lambda>m. priorityOf m = p) ms)
       \<and> (\<forall>c'. autoLoad h c dir = (Fulfilled (), c') \<longrightarrow>
             map (\<lambda>p. Str (fst p)) (services c')
               = map (\<lambda>p. Str (fst p)) (services c1) @ map name (array_sort compareFn ms))"
proof -
  from scan_Inr[OF assms] have discovered: "map Exports ms = map snd (moduleFiles dir)"
    by simp
  from assms have run: "autoLoad h c dir = register h c1 (array_sort compareFn ms)"
    by (simp add: autoLoad_def)
  have "\<forall>c'. autoLoad h c dir = (Fulfilled (), c') \<longrightarrow>
             map (\<lambda>p. Str (fst p)) (services c')
               = map (\<lambda>p. Str (fst p)) (services c1) @ map name (array_sort compareFn ms)"
    using register_Fulfilled_keys by (simp add: run)
  with discovered run show ?thesis
    by (simp add: array_sort_descending array_sort_stable)
qed

theorem autoLoad_registers_in_priority_order_witness:
  "map priorityOf (array_sort compareFn
       [module_of ''low'' 1, module_of ''high'' 5, module_of ''mid'' 3]) = [5, 3, 1]
   \<and> fst (autoLoad node_host empty_container priority_dir) = Fulfilled ()
   \<and> map fst (services (snd (autoLoad node_host empty_container priority_dir)))
       = [''high'', ''mid'', ''low'']
   \<and> array_sort compareFn tied_modules
       = [module_of ''third'' 2, module_of ''first'' 1, module_of ''second'' 1]"
proof -
  have scanned: "scan node_host empty_container (moduleFiles priority_dir) []
      = (Inr [module_of ''low'' 1, module_of ''high'' 5, module_of ''mid'' 3], empty_container)"
    by (simp add: moduleFiles_priority_dir module_of_def services_has_def services_get_def
        empty_container_def)
  have sorted: "array_sort compareFn [module_of ''low'' 1, module_of ''high'' 5, module_of ''mid'' 3]
      = [module_of ''high'' 5, module_of ''mid'' 3, module_of ''low'' 1]"
    by (simp add: array_sort_def compareFn_def priorityOf_def module_of_def opt_def no_options_def)
  have tied: "array_sort compareFn tied_modules
       = [module_of ''third'' 2, module_of ''first'' 1, module_of ''second'' 1]"
    by (simp add: tied_modules_def array_sort_def compareFn_def priorityOf_def module_of_def
        opt_def no_options_def)
  from autoLoad_registers_in_priority_order[OF scanned]
  have run: "autoLoad node_host empty_container priority_dir
      = register node_host empty_container
          (array_sort compareFn [module_of ''low'' 1, module_of ''high'' 5, module_of ''mid'' 3])"
    by blast
  have "register node_host empty_container
          [module_of ''high'' 5, module_of ''mid'' 3, module_of ''low'' 1]
      = (Fulfilled (),
         \<lparr>services = [(''high'', \<lparr>service = Created 0, options = None\<rparr>),
                      (''mid'', \<lparr>service = Created 1, options = None\<rparr>),
                      (''low'', \<lparr>service = Created 2, options = None\<rparr>)],
          props = [],
          trace = [New 1 [], ConsoleLog ''Registered service: high...'',
                   New 1 [], ConsoleLog ''Registered service: mid...'',
                   New 1 [], ConsoleLog ''Registered service: low...''],
          allocs = 3\<rparr>)"
    by (simp add: model_defs module_of_def)
  with run sorted tied show ?thesis
    by (simp add: priorityOf_def module_of_def opt_def no_options_def)
qed

text \<open>
  C8. A module whose name is registered and whose upsert option is off should make
  \<^verbatim>\<open>autoLoad\<close> fail with the duplicate error and leave the registry as it was. As
  stated this fails: the scan has already disposed the service named by an earlier module
  whose upsert option is on when it reaches the colliding module. Amended: when every
  module discovered before the colliding one is an object whose name is not registered,
  \<^verbatim>\<open>autoLoad\<close> is rejected with the duplicate error and the container is unchanged.
\<close>

theorem autoLoad_duplicate_leaves_container:
  assumes "moduleFiles dir = pre @ (file, Exports m) # post"
    and "\<forall>x\<in>set pre. \<exists>m'. snd x = Exports m' \<and> \<not> services_has c (name m')"
    and "services_has c (name m)" and "\<not> flag Options.upsert m"
  shows "autoLoad h c dir = (Rejected (DuplicateServiceError (name m)), c)"
proof -
  from scan_unregistered[OF assms(2), of h "(file, Exports m) # post" "[]"] obtain ms where
    "scan h c (pre @ (file, Exports m) # post) [] = scan h c ((file, Exports m) # post) ([] @ ms)"
    by blast
  with assms(3,4) have "scan h c (pre @ (file, Exports m) # post) []
      = (Inl (Rejected (DuplicateServiceError (name m))), c)"
    by simp
  with assms(1) show ?thesis
    by (simp add: autoLoad_def)
qed

theorem autoLoad_duplicate_leaves_container_witness:
  "autoLoad node_host container_AB duplicate_dir
     = (Rejected (DuplicateServiceError (Str ''B'')), container_AB)"
proof -
  have fresh: "\<forall>x\<in>set [(''c.js'', Exports (module_of ''C'' 2))].
      \<exists>m'. snd x = Exports m' \<and> \<not> services_has container_AB (name m')"
    by (simp add: container_AB services_has_def services_get_def module_of_def)
  have dup: "services_has container_AB (name plain_B)"
    by (simp add: container_AB services_has_def services_get_def plain_B_def)
  have noup: "\<not> flag Options.upsert plain_B"
    by (simp add: flag_def opt_def plain_B_def)
  from autoLoad_duplicate_leaves_container[OF moduleFiles_duplicate_dir fresh dup noup]
  show ?thesis by (simp add: plain_B_def)
qed

theorem autoLoad_duplicate_after_upsert_counterexample:
  "services_has container_AB (Str ''A'')
   \<and> fst (autoLoad node_host container_AB colliding_dir) = Rejected (DuplicateServiceError (Str ''B''))
   \<and> \<not> services_has (snd (autoLoad node_host container_AB colliding_dir)) (Str ''A'')
   \<and> snd (autoLoad node_host container_AB colliding_dir) \<noteq> container_AB"
proof -
  have "autoLoad node_host container_AB colliding_dir =
      (Rejected (DuplicateServiceError (Str ''B'')),
       \<lparr>services = [(''B'', \<lparr>service = Created 0, options = None\<rparr>)], props = [],
        trace = [ConsoleLog ''Registered service: A...'', New 2 [],
                 ConsoleLog ''Registered service: B...'',
                 DisposerCall 7 \<lparr>service = Fn 1, options = options lazy_A\<rparr>], allocs = 1\<rparr>)"
    by (simp add: autoLoad_def moduleFiles_def colliding_dir_def startsWith_def endsWith_def
        container_AB model_defs replacement_A_def plain_B_def lazy_A_def)
  then show ?thesis
    by (simp add: container_AB services_has_def services_get_def)
qed




text \<open>
  C10. Constructing a container makes it the current instance: \<^verbatim>\<open>getInstance\<close>
  returns the address of the container just constructed, whatever it returned before.
  The address is a new one, and the containers that existed are left as they were.
\<close>

theorem new_Container_becomes_current_instance:
  "getInstance (snd (new_Container opts p)) = Some (fst (new_Container opts p))
   \<and> fst (new_Container opts p) = length (heap p)
   \<and> length (heap (snd (new_Container opts p))) = Suc (length (heap p))
   \<and> take (length (heap p)) (heap (snd (new_Container opts p))) = heap p"
  by (simp add: new_Container_def getInstance_def Let_def)

end
